theory Spec2Isabelle
  imports Complex_Main "HOL-Library.Word" "HOL-Library.AList"
begin

section \<open>pyama\_squares: squared bounding boxes drawn into mask stacks\<close>

text \<open>
  A shallow embedding of \<^verbatim>\<open>src/pyama_squares.py\<close>. Python integers are \<^typ>\<open>int\<close>.
  A \<^verbatim>\<open>float64\<close> is the real number it stands for, and every floating-point
  operation is the exact operation followed by the rounding \<open>round64\<close> to the nearest
  \<^verbatim>\<open>float64\<close>. An \<^verbatim>\<open>np.int64\<close> is an \<^typ>\<open>int\<close> with the wrap-around of its arithmetic
  written out (\<open>wrap64\<close>), or a \<^typ>\<open>64 word\<close>. The \<^verbatim>\<open>uint8\<close> stacks hold \<^typ>\<open>8 word\<close>
  pixels, dictionaries are association lists in insertion order, the standard error
  stream is a list of lines, and every exception is a value of \<open>error\<close>.
\<close>

subsection \<open>Errors\<close>

text \<open>
  The Python exceptions the modelled code can raise. \<open>NonFinite\<close> is not an exception:
  it marks the places where NumPy leaves the finite numbers (\<^verbatim>\<open>sqrt\<close> of a negative
  number, a division by \<^verbatim>\<open>0.0\<close> and a result beyond the largest \<^verbatim>\<open>float64\<close> give
  \<^verbatim>\<open>nan\<close> or \<^verbatim>\<open>inf\<close> with a warning only). The reals have no such values, so the
  embedding stops there.
\<close>

datatype error = KeyError | TypeError | IndexError | ValueError | OverflowError | NonFinite

subsection \<open>Numbers and text\<close>

text \<open>\<^verbatim>\<open>np.rint\<close>: round to the nearest integer, a tie to the even neighbour.\<close>

definition rint :: "real \<Rightarrow> int" where
  "rint x =
     (let f = \<lfloor>x\<rfloor>; d = x - of_int f
      in if d < 1 / 2 then f
         else if 1 / 2 < d then f + 1
         else if even f then f else f + 1)"

text \<open>
  The rounding of a real number to \<^verbatim>\<open>float64\<close> (IEEE 754 binary64, round to nearest,
  ties to even). The neighbours of \<open>x\<close> among the \<^verbatim>\<open>float64\<close> values are the multiples
  of \<open>2 powi ulp_exp x\<close>: a significand of 53 bits, and the exponent \<open>-1074\<close> for the
  subnormal numbers.
\<close>

definition ulp_exp :: "real \<Rightarrow> int" where
  "ulp_exp x = max (\<lfloor>log 2 \<bar>x\<bar>\<rfloor> - 52) (- 1074)"

definition round64 :: "real \<Rightarrow> real" where
  "round64 x =
     (if x = 0 then 0
      else of_int (rint (x / 2 powi ulp_exp x)) * 2 powi ulp_exp x)"

text \<open>The largest \<^verbatim>\<open>float64\<close>; a result that rounds beyond it is \<^verbatim>\<open>inf\<close> (\<open>None\<close>).\<close>

definition max_float :: real where
  "max_float = (2 ^ 53 - 1) * 2 ^ 971"

definition fl64 :: "real \<Rightarrow> real option" where
  "fl64 x = (let r = round64 x in if \<bar>r\<bar> \<le> max_float then Some r else None)"

text \<open>
  The values of \<^verbatim>\<open>np.int64\<close>, and the wrap-around of the \<^verbatim>\<open>np.int64\<close> arithmetic (NumPy
  gives a warning only).
\<close>

definition int64 :: "int \<Rightarrow> bool" where
  "int64 i = (- (2 ^ 63) \<le> i \<and> i < 2 ^ 63)"

definition wrap64 :: "int \<Rightarrow> int" where
  "wrap64 i = (i + 2 ^ 63) mod 2 ^ 64 - 2 ^ 63"

text \<open>
  \<^verbatim>\<open>.astype(int)\<close> on the result of \<^verbatim>\<open>np.rint\<close>, which is a whole number. A number
  outside \<^verbatim>\<open>np.int64\<close> is converted to \<open>-2^63\<close> (the result of the conversion
  instruction of x86-64; NumPy gives a warning only).
\<close>

definition astype_int :: "int \<Rightarrow> int" where
  "astype_int r = (if int64 r then r else - (2 ^ 63))"

text \<open>The decimal text of a number, as an f-string prints it.\<close>

fun str_nat :: "nat \<Rightarrow> string" where
  "str_nat n =
     (if n < 10 then [''0123456789'' ! n]
      else str_nat (n div 10) @ [''0123456789'' ! (n mod 10)])"

declare str_nat.simps [simp del]

definition str_int :: "int \<Rightarrow> string" where
  "str_int i = (if i < 0 then CHR ''-'' # str_nat (nat (- i)) else str_nat (nat i))"

subsection \<open>Data model\<close>

text \<open>
  A bounding box (the dict with the entries \<^verbatim>\<open>x_min\<close>, \<^verbatim>\<open>x_max\<close>, \<^verbatim>\<open>y_min\<close>,
  \<^verbatim>\<open>y_max\<close>, \<^verbatim>\<open>x_mean\<close>, \<^verbatim>\<open>y_mean\<close>, \<^verbatim>\<open>area\<close>). The extents are integers; the
  boxes of \<^verbatim>\<open>make_empty_bboxes\<close> hold integer-valued floats there, kept as integers.
  The centroid and the area are \<^verbatim>\<open>float64\<close> numbers.
\<close>

record bbox =
  x_min :: int
  x_max :: int
  x_mean :: real
  y_min :: int
  y_max :: int
  y_mean :: real
  area :: real

text \<open>
  The keys of a track: \<^verbatim>\<open>None\<close>, \<^verbatim>\<open>...\<close> (Ellipsis) or a frame number. The keys of a
  collection: \<^verbatim>\<open>None\<close> (the entry with the stack dimensions) or a ROI name.
\<close>

datatype frame_key = FNone | FEllipsis | FInt int

datatype roi_key = KNone | KId nat

record stack_meta =
  n_frames :: int
  width :: int
  height :: int

type_synonym track = "(frame_key \<times> bbox) list"

datatype roi = Meta stack_meta | Track track

type_synonym track_collection = "(roi_key \<times> roi) list"

subsection \<open>Stacks\<close>

text \<open>
  A three-dimensional \<^verbatim>\<open>uint8\<close> array: its shape (frames, height, width) and its
  entries, indexed frame, row (y), column (x).
\<close>

type_synonym pixel = "8 word"

record ndarray =
  shape :: "nat \<times> nat \<times> nat"
  data :: "pixel list list list"

definition px :: "ndarray \<Rightarrow> nat \<Rightarrow> nat \<Rightarrow> nat \<Rightarrow> pixel" where
  "px s f y x = data s ! f ! y ! x"

definition wf_stack :: "ndarray \<Rightarrow> bool" where
  "wf_stack s =
     (case shape s of (n, h, w) \<Rightarrow>
        length (data s) = n \<and>
        list_all (\<lambda>fr. length fr = h \<and> list_all (\<lambda>row. length row = w) fr) (data s))"

text \<open>\<^verbatim>\<open>np.zeros((n_frames, height, width), dtype=np.uint8)\<close>; a negative dimension raises.\<close>

definition np_zeros :: "int \<Rightarrow> int \<Rightarrow> int \<Rightarrow> error + ndarray" where
  "np_zeros n h w =
     (if n < 0 \<or> h < 0 \<or> w < 0 then Inl ValueError
      else Inr \<lparr>shape = (nat n, nat h, nat w),
                data = replicate (nat n) (replicate (nat h) (replicate (nat w) 0))\<rparr>)"

text \<open>
  A bound of a Python slice on an axis of length \<open>n\<close>: a negative bound counts from the
  end, and the result is clipped to \<open>0..n\<close>.
\<close>

definition slice_bound :: "int \<Rightarrow> nat \<Rightarrow> nat" where
  "slice_bound i n = (if i < 0 then nat (max (i + int n) 0) else min (nat i) n)"

text \<open>The slice \<^verbatim>\<open>a:b\<close> selects the index \<open>i\<close> on an axis of length \<open>n\<close>.\<close>

definition in_slice :: "nat \<Rightarrow> int \<Rightarrow> int \<Rightarrow> nat \<Rightarrow> bool" where
  "in_slice n a b i = (slice_bound a n \<le> i \<and> i < slice_bound b n)"

text \<open>Apply \<open>f\<close> to the entries of \<open>xs\<close> that the slice \<^verbatim>\<open>a:b\<close> selects on an axis of length \<open>n\<close>.\<close>

definition upd_slice :: "nat \<Rightarrow> int \<Rightarrow> int \<Rightarrow> ('a \<Rightarrow> 'a) \<Rightarrow> 'a list \<Rightarrow> 'a list" where
  "upd_slice n a b f xs = map (\<lambda>(i, v). if in_slice n a b i then f v else v) (enumerate 0 xs)"

text \<open>
  The first index of \<^verbatim>\<open>stack[frame, ..., y1:y2, x1:x2]\<close>: the whole axis
  (\<^verbatim>\<open>slice(None)\<close>) or one frame. An integer index counts from the end when negative
  and raises \<^verbatim>\<open>IndexError\<close> out of range.
\<close>

datatype np_index = AllFrames | OneFrame nat

definition frame_index :: "frame_key \<Rightarrow> nat \<Rightarrow> error + np_index" where
  "frame_index frame n =
     (case frame of
        FNone \<Rightarrow> Inr AllFrames
      | FEllipsis \<Rightarrow> Inr AllFrames
      | FInt i \<Rightarrow>
          if 0 \<le> i \<and> i < int n then Inr (OneFrame (nat i))
          else if - int n \<le> i \<and> i < 0 then Inr (OneFrame (nat (i + int n)))
          else Inl IndexError)"

text \<open>Every frame key of a track is one that indexes a stack of \<open>n\<close> frames.\<close>

definition valid_frames :: "nat \<Rightarrow> track \<Rightarrow> bool" where
  "valid_frames n t = list_all (\<lambda>(fr, bb). frame_index fr n \<noteq> Inl IndexError) t"

text \<open>The frames that a resolved first index selects.\<close>

definition selects :: "np_index \<Rightarrow> nat \<Rightarrow> bool" where
  "selects idx f = (case idx of AllFrames \<Rightarrow> True | OneFrame k \<Rightarrow> f = k)"

text \<open>\<^verbatim>\<open>stack[frame, ..., y1:y2, x1:x2] = val\<close> for a resolved first index.\<close>

definition assign_region ::
  "ndarray \<Rightarrow> np_index \<Rightarrow> int \<Rightarrow> int \<Rightarrow> int \<Rightarrow> int \<Rightarrow> pixel \<Rightarrow> ndarray" where
  "assign_region s idx y1 y2 x1 x2 val =
     (case shape s of (n, h, w) \<Rightarrow>
        let paint = upd_slice h y1 y2 (upd_slice w x1 x2 (\<lambda>_. val))
        in (case idx of
              AllFrames \<Rightarrow> s\<lparr>data := map paint (data s)\<rparr>
            | OneFrame k \<Rightarrow> s\<lparr>data := (data s)[k := paint (data s ! k)]\<rparr>))"

subsection \<open>\<^verbatim>\<open>insert_bb\<close>\<close>

text \<open>
  Lines 93--99: the requested width and height after their defaults, which are the
  width and height of the box itself.
\<close>

definition bb_size :: "bbox \<Rightarrow> int option \<Rightarrow> int option \<Rightarrow> int \<times> int" where
  "bb_size bb bb_width bb_height =
     (let w = x_max bb - x_min bb + 1;
          h = y_max bb - y_min bb + 1
      in (case bb_width of None \<Rightarrow> w | Some bw \<Rightarrow> bw,
          case bb_height of None \<Rightarrow> h | Some bh \<Rightarrow> bh))"

text \<open>
  Lines 103--112: the extents \<open>(x1, x2, y1, y2)\<close> of the box to draw, centred at the
  rounded centroid (weighted) or in the bounds of the box. In the weighted branch
  \<^verbatim>\<open>np.rint(...).astype(int)\<close> is an \<^verbatim>\<open>np.int64\<close>, and so are \<open>x1\<close>, \<open>x2\<close>, \<open>y1\<close> and
  \<open>y2\<close>: the subtraction and the addition wrap around. The other branch works on
  Python integers.
\<close>

definition extents :: "bbox \<Rightarrow> int option \<Rightarrow> int option \<Rightarrow> bool \<Rightarrow> int \<times> int \<times> int \<times> int" where
  "extents bb bb_width bb_height weighted =
     (let w = x_max bb - x_min bb + 1;
          h = y_max bb - y_min bb + 1;
          (bw, bh) = bb_size bb bb_width bb_height
      in if weighted then
           (let x1 = wrap64 (astype_int (rint (x_mean bb)) - bw div 2);
                x2 = wrap64 (x1 + bw);
                y1 = wrap64 (astype_int (rint (y_mean bb)) - bh div 2);
                y2 = wrap64 (y1 + bh)
            in (x1, x2, y1, y2))
         else
           (let x1 = x_min bb - (bw - w) div 2;
                x2 = x1 + bw;
                y1 = y_min bb - (bh - h) div 2;
                y2 = y1 + bh
            in (x1, x2, y1, y2)))"

text \<open>Line 115: the box does not fit into an image of the given width and height.\<close>

definition hits_border :: "int \<times> int \<times> int \<times> int \<Rightarrow> nat \<Rightarrow> nat \<Rightarrow> bool" where
  "hits_border e h w =
     (case e of (x1, x2, y1, y2) \<Rightarrow> x1 < 0 \<or> x2 > int w \<or> y1 < 0 \<or> y2 > int h)"

text \<open>
  Lines 116--121: the frame as the message names it. \<^verbatim>\<open>None\<close> and \<^verbatim>\<open>...\<close> have become
  \<^verbatim>\<open>slice(None)\<close> at line 101; a frame number is printed one-based.
\<close>

definition frame_name :: "frame_key \<Rightarrow> string" where
  "frame_name frame = (case frame of FInt i \<Rightarrow> str_int (i + 1) | _ \<Rightarrow> '':'')"

text \<open>Line 126: the line written to the standard error stream.\<close>

definition border_msg :: "string \<Rightarrow> int \<times> int \<times> int \<times> int \<Rightarrow> string \<Rightarrow> int \<Rightarrow> int \<Rightarrow> string" where
  "border_msg msg e fname bw bh =
     (case e of (x1, x2, y1, y2) \<Rightarrow>
        msg @ '' box (x='' @ str_int x1 @ '':'' @ str_int x2 @ '', y='' @ str_int y1 @ '':''
          @ str_int y2 @ '')['' @ fname @ ''] that hits border (w='' @ str_int bw @ '', h=''
          @ str_int bh @ '')'')"

text \<open>Lines 129--136: the extents clipped to the image.\<close>

definition clip :: "int \<times> int \<times> int \<times> int \<Rightarrow> nat \<Rightarrow> nat \<Rightarrow> int \<times> int \<times> int \<times> int" where
  "clip e h w =
     (case e of (x1, x2, y1, y2) \<Rightarrow>
        (if x1 < 0 then 0 else x1,
         if x2 > int w then int w else x2,
         if y1 < 0 then 0 else y1,
         if y2 > int h then int h else y2))"

text \<open>
  \<^verbatim>\<open>insert_bb(stack, bb, bb_width, bb_height, frame, weighted, ignore_borders)\<close>. The
  stack is mutated and the standard error stream is written: both are passed in and
  returned. An exception ends the run, and the model keeps the exception only. In the
  weighted branch the requested width and height enter the \<^verbatim>\<open>np.int64\<close> arithmetic
  of lines 104--107, where NumPy (version 2) raises \<^verbatim>\<open>OverflowError\<close> for a Python
  integer that is not a value of \<^verbatim>\<open>np.int64\<close>.
\<close>

definition insert_bb ::
  "ndarray \<Rightarrow> bbox \<Rightarrow> int option \<Rightarrow> int option \<Rightarrow> frame_key \<Rightarrow> bool \<Rightarrow> bool \<Rightarrow> string list
     \<Rightarrow> error + ndarray \<times> string list" where
  "insert_bb stack bb bb_width bb_height frame weighted ignore_borders err =
     (let (bw, bh) = bb_size bb bb_width bb_height;
          e = extents bb bb_width bb_height weighted;
          (n, h, w) = shape stack
      in if weighted \<and> \<not> (int64 bw \<and> int64 bh) then Inl OverflowError
         else if hits_border e h w then
           (let msg = (if ignore_borders then ''INCLUDE'' else ''EXCLUDE'');
                err' = err @ [border_msg msg e (frame_name frame) bw bh]
            in if \<not> ignore_borders then Inr (stack, err')
               else
                 (case clip e h w of (x1, x2, y1, y2) \<Rightarrow>
                    (case frame_index frame n of
                       Inl ex \<Rightarrow> Inl ex
                     | Inr idx \<Rightarrow> Inr (assign_region stack idx y1 y2 x1 x2 2, err'))))
         else
           (case e of (x1, x2, y1, y2) \<Rightarrow>
              (case frame_index frame n of
                 Inl ex \<Rightarrow> Inl ex
               | Inr idx \<Rightarrow> Inr (assign_region stack idx y1 y2 x1 x2 1, err))))"

subsection \<open>\<^verbatim>\<open>make_empty_bboxes\<close>\<close>

text \<open>
  The argument \<^verbatim>\<open>empty\<close> of \<^verbatim>\<open>main\<close>, which is also the argument \<^verbatim>\<open>coords\<close> of
  \<^verbatim>\<open>make_empty_bboxes\<close>: \<^verbatim>\<open>None\<close>, a list of coordinates, or (after the assignment
  at line 289) the dict that \<^verbatim>\<open>make_empty_bboxes\<close> returned.
\<close>

datatype empty_arg = ENone | ECoords "(int \<times> int) list" | EDict track_collection

text \<open>The truth value of \<^verbatim>\<open>empty\<close> at line 288.\<close>

definition truthy :: "empty_arg \<Rightarrow> bool" where
  "truthy e = (case e of ENone \<Rightarrow> False | ECoords cs \<Rightarrow> cs \<noteq> [] | EDict d \<Rightarrow> d \<noteq> [])"

text \<open>
  Lines 57--61: the width, the height and the area of the boxes, in \<^verbatim>\<open>float64\<close>. The
  width and the height are whole numbers (results of \<^verbatim>\<open>np.rint\<close>) and are kept as
  integers. \<open>None\<close> stands for the non-finite results: \<^verbatim>\<open>sqrt\<close> of a negative area,
  and the division by a width of \<^verbatim>\<open>0.0\<close>.
\<close>

definition empty_size :: "real \<Rightarrow> (int \<times> int \<times> real) option" where
  "empty_size a =
     (if a < 0 then None
      else let w = rint (round64 (sqrt a))
           in if w = 0 then None
              else (case fl64 (a / of_int w) of
                      None \<Rightarrow> None
                    | Some q \<Rightarrow>
                        let h = rint q
                        in (case fl64 (of_int w * of_int h) of
                              None \<Rightarrow> None
                            | Some a' \<Rightarrow> Some (w, h, a'))))"

text \<open>
  Lines 65--77: the box at one coordinate. The coordinate is a pair of Python
  integers; the subtraction converts each to \<^verbatim>\<open>float64\<close>, which raises
  \<^verbatim>\<open>OverflowError\<close> for an integer beyond the largest \<^verbatim>\<open>float64\<close>. \<open>w // 2\<close> and
  \<open>h // 2\<close> are exact on whole numbers. \<open>x2\<close> and \<open>y2\<close> are sums of whole numbers
  and so whole numbers; the box keeps them as integers.
\<close>

definition empty_bbox :: "int \<times> int \<times> real \<Rightarrow> int \<times> int \<Rightarrow> error + bbox" where
  "empty_bbox sz c =
     (case sz of (w, h, a) \<Rightarrow>
        let w2 = w div 2;
            h2 = h div 2
        in (case (fl64 (of_int (fst c)), fl64 (of_int (snd c))) of
              (Some cx, Some cy) \<Rightarrow>
                (case (fl64 (cx - of_int w2), fl64 (cy - of_int h2)) of
                   (Some dx, Some dy) \<Rightarrow>
                     let x1 = rint dx;
                         y1 = rint dy
                     in (case (fl64 (of_int x1 + of_int w), fl64 (of_int y1 + of_int h)) of
                           (Some x2, Some y2) \<Rightarrow>
                             (case (fl64 (of_int x1 + x2), fl64 (of_int y1 + y2)) of
                                (Some sx, Some sy) \<Rightarrow>
                                  Inr \<lparr>x_min = x1, x_max = \<lfloor>x2\<rfloor>, x_mean = round64 (sx / 2),
                                       y_min = y1, y_max = \<lfloor>y2\<rfloor>, y_mean = round64 (sy / 2),
                                       area = a\<rparr>
                              | _ \<Rightarrow> Inl NonFinite)
                         | _ \<Rightarrow> Inl NonFinite)
                 | _ \<Rightarrow> Inl NonFinite)
            | _ \<Rightarrow> Inl OverflowError))"

text \<open>Lines 63--78: one track for each coordinate, keyed by its position.\<close>

fun empty_tracks :: "int \<times> int \<times> real \<Rightarrow> nat \<Rightarrow> (int \<times> int) list \<Rightarrow> error + track_collection" where
  "empty_tracks sz i [] = Inr []"
| "empty_tracks sz i (c # cs) =
     (case empty_bbox sz c of
        Inl ex \<Rightarrow> Inl ex
      | Inr bb \<Rightarrow>
          (case empty_tracks sz (Suc i) cs of
             Inl ex \<Rightarrow> Inl ex
           | Inr tc \<Rightarrow> Inr ((KId i, Track [(FNone, bb)]) # tc)))"

text \<open>
  \<^verbatim>\<open>make_empty_bboxes(coords, area)\<close>. Iterating over a dict gives its keys, and a key
  is not subscriptable; \<^verbatim>\<open>None\<close> is not iterable. The non-finite sizes reach a box
  only when there is a coordinate.
\<close>

definition make_empty_bboxes :: "empty_arg \<Rightarrow> real \<Rightarrow> error + track_collection" where
  "make_empty_bboxes coords a =
     (case coords of
        ENone \<Rightarrow> Inl TypeError
      | EDict d \<Rightarrow> if d = [] then Inr [] else Inl TypeError
      | ECoords cs \<Rightarrow>
          if cs = [] then Inr []
          else (case empty_size a of
                  None \<Rightarrow> Inl NonFinite
                | Some sz \<Rightarrow> empty_tracks sz 0 cs))"

subsection \<open>\<^verbatim>\<open>varying_margins_centered\<close>\<close>

text \<open>
  Lines 145--147: the stack dimensions, read from the entry \<^verbatim>\<open>None\<close> of the first
  collection. A collection argument is \<open>None\<close> when it is \<^verbatim>\<open>None\<close> or an empty list.
\<close>

definition vmc_meta :: "track_collection option list \<Rightarrow> error + stack_meta" where
  "vmc_meta bboxes =
     (case bboxes of
        [] \<Rightarrow> Inl IndexError
      | None # _ \<Rightarrow> Inl TypeError
      | Some c # _ \<Rightarrow>
          (case map_of c KNone of
             None \<Rightarrow> Inl KeyError
           | Some (Track _) \<Rightarrow> Inl KeyError
           | Some (Meta m) \<Rightarrow> Inr m))"

text \<open>Lines 148--150: one stack of zeros for each margin, keyed by the margin.\<close>

fun alloc_stacks ::
  "stack_meta \<Rightarrow> real list \<Rightarrow> (real \<times> ndarray) list \<Rightarrow> error + (real \<times> ndarray) list" where
  "alloc_stacks m [] stacks = Inr stacks"
| "alloc_stacks m (margin # margins) stacks =
     (case np_zeros (n_frames m) (height m) (width m) of
        Inl ex \<Rightarrow> Inl ex
      | Inr z \<Rightarrow> alloc_stacks m margins (AList.update margin z stacks))"

text \<open>
  Lines 157--158: the side of the square for a margin, an \<^verbatim>\<open>np.int64\<close>. \<open>None\<close> when
  a number is not finite: the sum or the product is beyond the largest \<^verbatim>\<open>float64\<close>,
  or the square root is taken of a negative number.
\<close>

definition bb_length :: "real \<Rightarrow> real \<Rightarrow> 64 word option" where
  "bb_length a margin =
     (case fl64 (1 + margin) of
        None \<Rightarrow> None
      | Some x \<Rightarrow>
          (case fl64 (x * a) of
             None \<Rightarrow> None
           | Some p \<Rightarrow>
               if p < 0 then None
               else Some (word_of_int (astype_int (rint (round64 (sqrt p)))))))"

text \<open>
  Lines 160--163: the entries of one track drawn into one stack. The side is handed
  to \<^verbatim>\<open>insert_bb\<close> as the requested width and height; \<open>sint\<close> reads its value.
\<close>

fun draw_track ::
  "ndarray \<Rightarrow> 64 word option \<Rightarrow> bool \<Rightarrow> track \<Rightarrow> string list \<Rightarrow> error + ndarray \<times> string list"
  where
  "draw_track stack len ignore_borders [] err = Inr (stack, err)"
| "draw_track stack len ignore_borders ((fr, bb) # tr) err =
     (if fr = FEllipsis then draw_track stack len ignore_borders tr err
      else (case len of
              None \<Rightarrow> Inl NonFinite
            | Some l \<Rightarrow>
                (case insert_bb stack bb (Some (sint l)) (Some (sint l)) fr True ignore_borders
                        err of
                   Inl ex \<Rightarrow> Inl ex
                 | Inr (stack', err') \<Rightarrow> draw_track stack' len ignore_borders tr err')))"

text \<open>
  Lines 156--163: one ROI drawn into the stack of every margin. The entries of a
  dict of stack dimensions are numbers, not boxes.
\<close>

fun draw_margins ::
  "real \<Rightarrow> bool \<Rightarrow> roi \<Rightarrow> (real \<times> ndarray) list \<Rightarrow> string list
     \<Rightarrow> error + (real \<times> ndarray) list \<times> string list" where
  "draw_margins a ignore_borders tr [] err = Inr ([], err)"
| "draw_margins a ignore_borders tr ((margin, stack) # stacks) err =
     (case tr of
        Meta _ \<Rightarrow> Inl TypeError
      | Track t \<Rightarrow>
          (case draw_track stack (bb_length a margin) ignore_borders t err of
             Inl ex \<Rightarrow> Inl ex
           | Inr (stack', err') \<Rightarrow>
               (case draw_margins a ignore_borders tr stacks err' of
                  Inl ex \<Rightarrow> Inl ex
                | Inr (stacks', err'') \<Rightarrow> Inr ((margin, stack') # stacks', err''))))"

text \<open>Line 152: the items of the collections that are not empty, in order.\<close>

definition all_items :: "track_collection option list \<Rightarrow> (roi_key \<times> roi) list" where
  "all_items bboxes = concat (map (\<lambda>bbx. case bbx of None \<Rightarrow> [] | Some c \<Rightarrow> c) bboxes)"

text \<open>Lines 152--163: every ROI drawn, the entry \<^verbatim>\<open>None\<close> skipped.\<close>

fun draw_items ::
  "real \<Rightarrow> bool \<Rightarrow> (roi_key \<times> roi) list \<Rightarrow> (real \<times> ndarray) list \<Rightarrow> string list
     \<Rightarrow> error + (real \<times> ndarray) list \<times> string list" where
  "draw_items a ignore_borders [] stacks err = Inr (stacks, err)"
| "draw_items a ignore_borders ((k, tr) # items) stacks err =
     (if k = KNone then draw_items a ignore_borders items stacks err
      else (case draw_margins a ignore_borders tr stacks err of
              Inl ex \<Rightarrow> Inl ex
            | Inr (stacks', err') \<Rightarrow> draw_items a ignore_borders items stacks' err'))"

definition varying_margins_centered ::
  "real \<Rightarrow> track_collection option list \<Rightarrow> real list \<Rightarrow> bool \<Rightarrow> string list
     \<Rightarrow> error + (real \<times> ndarray) list \<times> string list" where
  "varying_margins_centered a bboxes margins ignore_borders err =
     (case vmc_meta bboxes of
        Inl ex \<Rightarrow> Inl ex
      | Inr m \<Rightarrow>
          (case alloc_stacks m margins [] of
             Inl ex \<Rightarrow> Inl ex
           | Inr stacks \<Rightarrow> draw_items a ignore_borders (all_items bboxes) stacks err))"

subsection \<open>\<^verbatim>\<open>main\<close>\<close>

text \<open>The second collection that line 290 passes: a dict, or a value that line 152 skips.\<close>

definition as_collection :: "empty_arg \<Rightarrow> track_collection option" where
  "as_collection e = (case e of EDict d \<Rightarrow> Some d | _ \<Rightarrow> None)"

text \<open>
  \<^verbatim>\<open>main(path, area, margin, ..., ignore_borders, empty)\<close>. The files are given by
  what \<^verbatim>\<open>read_bboxes\<close> returns for them; the result lists, for each file, the stacks
  that are handed to \<^verbatim>\<open>export_squares\<close>.
\<close>

fun main ::
  "track_collection list \<Rightarrow> real \<Rightarrow> real list \<Rightarrow> bool \<Rightarrow> empty_arg \<Rightarrow> string list
     \<Rightarrow> error + (real \<times> ndarray) list list \<times> string list" where
  "main [] a margin ignore_borders emp err = Inr ([], err)"
| "main (bboxes # path) a margin ignore_borders emp err =
     (case (if truthy emp then map_sum id EDict (make_empty_bboxes emp a) else Inr emp) of
        Inl ex \<Rightarrow> Inl ex
      | Inr emp' \<Rightarrow>
          (case varying_margins_centered a [Some bboxes, as_collection emp'] margin
                  ignore_borders err of
             Inl ex \<Rightarrow> Inl ex
           | Inr (stacks, err') \<Rightarrow>
               (case main path a margin ignore_borders emp' err' of
                  Inl ex \<Rightarrow> Inl ex
                | Inr (out, err'') \<Rightarrow> Inr (stacks # out, err''))))"

subsection \<open>The squares in the stacks\<close>





section \<open>Properties\<close>

subsection \<open>Rounding\<close>

lemma floor_le_rint: "\<lfloor>x\<rfloor> \<le> rint x"
  by (simp add: rint_def Let_def)

lemma rint_le_floor: "rint x \<le> \<lfloor>x\<rfloor> + 1"
  by (simp add: rint_def Let_def)

lemma rint_mono:
  assumes "x \<le> y"
  shows "rint x \<le> rint y"
proof (cases "\<lfloor>x\<rfloor> < \<lfloor>y\<rfloor>")
  case True
  have "rint x \<le> \<lfloor>x\<rfloor> + 1" by (rule rint_le_floor)
  also from True have "\<dots> \<le> \<lfloor>y\<rfloor>" by simp
  also have "\<dots> \<le> rint y" by (rule floor_le_rint)
  finally show ?thesis .
next
  case False
  with assms have "\<lfloor>x\<rfloor> = \<lfloor>y\<rfloor>" using floor_mono [of x y] by linarith
  with assms show ?thesis by (auto simp add: rint_def Let_def)
qed

lemma rint_of_int [simp]: "rint (of_int k) = k"
  by (simp add: rint_def Let_def)

lemma powi_pos [simp]: "0 < (2::real) powi k"
  by (rule zero_less_power_int) simp

lemma powr_powi: "2 powr of_int k = (2::real) powi k"
  by (simp add: powr_real_of_int')

lemma log2_bounds:
  assumes "0 < x"
  shows "2 powi \<lfloor>log 2 x\<rfloor> \<le> x" and "x < 2 powi (\<lfloor>log 2 x\<rfloor> + 1)"
proof -
  from assms have "2 powr of_int \<lfloor>log 2 x\<rfloor> \<le> x \<and> x < 2 powr of_int (\<lfloor>log 2 x\<rfloor> + 1)"
    using floor_log_eq_powr_iff [of x 2 "\<lfloor>log 2 x\<rfloor>"] by simp
  then show "2 powi \<lfloor>log 2 x\<rfloor> \<le> x" and "x < 2 powi (\<lfloor>log 2 x\<rfloor> + 1)"
    unfolding powr_powi by simp_all
qed

lemma log2_less:
  assumes "0 < x" and "x < 2 powi k"
  shows "\<lfloor>log 2 x\<rfloor> < k"
proof (rule ccontr)
  assume "\<not> \<lfloor>log 2 x\<rfloor> < k"
  then have "k \<le> \<lfloor>log 2 x\<rfloor>" by simp
  then have "(2::real) powi k \<le> 2 powi \<lfloor>log 2 x\<rfloor>" by (intro power_int_increasing) simp_all
  with log2_bounds(1) [OF assms(1)] assms(2) show False by linarith
qed

lemma log2_ge:
  assumes "2 powi k \<le> x"
  shows "k \<le> \<lfloor>log 2 x\<rfloor>"
proof (rule ccontr)
  have "0 < (2::real) powi k" by (rule zero_less_power_int) simp
  with assms have x: "0 < x" by linarith
  assume "\<not> k \<le> \<lfloor>log 2 x\<rfloor>"
  then have "\<lfloor>log 2 x\<rfloor> + 1 \<le> k" by simp
  then have "(2::real) powi (\<lfloor>log 2 x\<rfloor> + 1) \<le> 2 powi k" by (intro power_int_increasing) simp_all
  with log2_bounds(2) [OF x] assms show False by linarith
qed

lemma log2_mono:
  assumes "0 < x" and "x \<le> y"
  shows "\<lfloor>log 2 x\<rfloor> \<le> \<lfloor>log 2 y\<rfloor>"
  using log2_bounds(1) [OF assms(1)] assms(2) by (intro log2_ge) simp


lemma round64_dyadic:
  assumes "\<bar>m\<bar> < 2 ^ 53" and "- 1074 \<le> k"
  shows "round64 (of_int m * 2 powi k) = of_int m * 2 powi k"
proof (cases "m = 0")
  case True
  then show ?thesis by (simp add: round64_def)
next
  case False
  let ?x = "of_int m * (2::real) powi k"
  let ?p = "ulp_exp ?x"
  from False have x0: "?x \<noteq> 0" by simp
  have ax: "\<bar>?x\<bar> = of_int \<bar>m\<bar> * 2 powi k" by (simp add: abs_mult)
  from assms(1) have "(of_int \<bar>m\<bar> :: real) < 2 ^ 53"
    by (metis of_int_less_numeral_power_cancel_iff)
  then have "\<bar>?x\<bar> < 2 ^ 53 * 2 powi k" unfolding ax by simp
  also have "\<dots> = 2 powi (53 + k)" by (simp add: power_int_add)
  finally have "\<lfloor>log 2 \<bar>?x\<bar>\<rfloor> < 53 + k" using x0 by (intro log2_less) simp_all
  with assms(2) have pk: "?p \<le> k" by (simp add: ulp_exp_def)
  have "?x / 2 powi ?p = of_int m * 2 powi (k - ?p)"
    by (simp add: power_int_diff)
  also from pk have "\<dots> = of_int (m * 2 ^ nat (k - ?p))"
    by (simp add: power_int_nonneg_exp)
  finally have "rint (?x / 2 powi ?p) = m * 2 ^ nat (k - ?p)"
    by (simp only: rint_of_int)
  then have "of_int (rint (?x / 2 powi ?p)) * 2 powi ?p
      = of_int m * ((2::real) powi (k - ?p) * 2 powi ?p)"
    using pk by (simp add: power_int_nonneg_exp)
  also have "\<dots> = ?x" by (simp add: power_int_diff)
  finally show ?thesis using x0 by (simp add: round64_def)
qed

lemma round64_int: "\<bar>n\<bar> < 2 ^ 53 \<Longrightarrow> round64 (of_int n) = of_int n"
  using round64_dyadic [of n 0] by simp


lemma round64_le_grid:
  assumes "x \<le> 2 powi b" and "ulp_exp x \<le> b"
  shows "round64 x \<le> 2 powi b"
proof (cases "x = 0")
  case True
  then show ?thesis by (simp add: round64_def less_imp_le)
next
  case False
  let ?p = "ulp_exp x"
  from assms(1) have "x / 2 powi ?p \<le> 2 powi b / 2 powi ?p"
    by (simp add: divide_right_mono less_imp_le)
  also have "\<dots> = 2 powi (b - ?p)" by (simp add: power_int_diff)
  also from assms(2) have "\<dots> = of_int (2 ^ nat (b - ?p))" by (simp add: power_int_nonneg_exp)
  finally have "rint (x / 2 powi ?p) \<le> rint (of_int (2 ^ nat (b - ?p)))" by (rule rint_mono)
  then have "rint (x / 2 powi ?p) \<le> 2 ^ nat (b - ?p)" by (simp only: rint_of_int)
  then have "(of_int (rint (x / 2 powi ?p)) :: real) \<le> of_int (2 ^ nat (b - ?p))"
    by (simp only: of_int_le_iff)
  then have "of_int (rint (x / 2 powi ?p)) * 2 powi ?p \<le> of_int (2 ^ nat (b - ?p)) * (2::real) powi ?p"
    by (intro mult_right_mono) (simp_all add: less_imp_le)
  also from assms(2) have "\<dots> = 2 powi (b - ?p) * 2 powi ?p" by (simp add: power_int_nonneg_exp)
  also have "\<dots> = 2 powi b" by (simp add: power_int_diff)
  finally show ?thesis using False by (simp add: round64_def)
qed

lemma round64_ge_grid:
  assumes "2 powi b \<le> x" and "ulp_exp x \<le> b"
  shows "2 powi b \<le> round64 x"
proof -
  let ?p = "ulp_exp x"
  have "0 < (2::real) powi b" by simp
  with assms(1) have x0: "x \<noteq> 0" by linarith
  have "(2::real) powi b = 2 powi (b - ?p) * 2 powi ?p" by (simp add: power_int_diff)
  also from assms(2) have "\<dots> = of_int (2 ^ nat (b - ?p)) * 2 powi ?p"
    by (simp add: power_int_nonneg_exp)
  finally have e: "(2::real) powi b = of_int (2 ^ nat (b - ?p)) * 2 powi ?p" .
  from assms(1) have "2 powi b / 2 powi ?p \<le> x / 2 powi ?p"
    by (simp add: divide_right_mono less_imp_le)
  then have "of_int (2 ^ nat (b - ?p)) \<le> x / 2 powi ?p"
    unfolding e by simp
  then have "rint (of_int (2 ^ nat (b - ?p))) \<le> rint (x / 2 powi ?p)" by (rule rint_mono)
  then have "2 ^ nat (b - ?p) \<le> rint (x / 2 powi ?p)" by (simp only: rint_of_int)
  then have "(of_int (2 ^ nat (b - ?p)) :: real) \<le> of_int (rint (x / 2 powi ?p))"
    by (simp only: of_int_le_iff)
  then have "of_int (2 ^ nat (b - ?p)) * (2::real) powi ?p \<le> of_int (rint (x / 2 powi ?p)) * 2 powi ?p"
    by (intro mult_right_mono) (simp_all add: less_imp_le)
  with e x0 show ?thesis by (simp add: round64_def)
qed

lemma round64_nonneg:
  assumes "0 \<le> x"
  shows "0 \<le> round64 x"
proof (cases "x = 0")
  case True
  then show ?thesis by (simp add: round64_def)
next
  case False
  from assms have "0 \<le> x / 2 powi ulp_exp x" by (simp add: less_imp_le)
  then have "rint 0 \<le> rint (x / 2 powi ulp_exp x)" by (rule rint_mono)
  then have "0 \<le> rint (x / 2 powi ulp_exp x)" using rint_of_int [of 0] by simp
  with False show ?thesis by (simp add: round64_def less_imp_le)
qed

lemma round64_mono:
  assumes "0 \<le> x" and "x \<le> y"
  shows "round64 x \<le> round64 y"
proof (cases "x = 0")
  case True
  with assms round64_nonneg [of y] show ?thesis by (simp add: round64_def)
next
  case False
  with assms have x: "0 < x" and y: "0 < y" by simp_all
  let ?ex = "\<lfloor>log 2 x\<rfloor>" and ?ey = "\<lfloor>log 2 y\<rfloor>"
  let ?px = "ulp_exp x" and ?py = "ulp_exp y"
  from log2_mono [OF x assms(2)] have e: "?ex \<le> ?ey" .
  from x y have px: "?px = max (?ex - 52) (- 1074)" and py: "?py = max (?ey - 52) (- 1074)"
    by (simp_all add: ulp_exp_def)
  show ?thesis
  proof (cases "?px = ?py")
    case True
    from assms(2) have "x / 2 powi ?px \<le> y / 2 powi ?px"
      by (simp add: divide_right_mono less_imp_le)
    then have "rint (x / 2 powi ?px) \<le> rint (y / 2 powi ?px)" by (rule rint_mono)
    then have "(of_int (rint (x / 2 powi ?px)) :: real) \<le> of_int (rint (y / 2 powi ?px))"
      by (simp only: of_int_le_iff)
    then have "of_int (rint (x / 2 powi ?px)) * 2 powi ?px
        \<le> of_int (rint (y / 2 powi ?px)) * (2::real) powi ?px"
      by (intro mult_right_mono) (simp_all add: less_imp_le)
    with x y True show ?thesis by (simp add: round64_def)
  next
    case False
    with e px py have lt: "?ex + 1 \<le> ?ey" and pye: "?py \<le> ?ey" and pxe: "?px \<le> ?ey"
      by linarith+
    have "x < 2 powi (?ex + 1)" by (rule log2_bounds(2) [OF x])
    also from lt have "\<dots> \<le> 2 powi ?ey" by (intro power_int_increasing) simp_all
    finally have "x \<le> 2 powi ?ey" by simp
    then have "round64 x \<le> 2 powi ?ey" using pxe by (rule round64_le_grid)
    also have "\<dots> \<le> round64 y" using log2_bounds(1) [OF y] pye by (rule round64_ge_grid)
    finally show ?thesis .
  qed
qed


lemma max_float_ge: "2 ^ 1023 \<le> max_float"
  by (simp add: max_float_def)


lemma fl64_int: "\<bar>n\<bar> < 2 ^ 53 \<Longrightarrow> fl64 (of_int n) = Some (of_int n)"
proof -
  assume a: "\<bar>n\<bar> < 2 ^ 53"
  then have "(of_int \<bar>n\<bar> :: real) < 2 ^ 53"
    by (metis of_int_less_numeral_power_cancel_iff)
  also have "\<dots> \<le> 2 ^ 1023" by (intro power_increasing) simp_all
  also have "\<dots> \<le> max_float" by (rule max_float_ge)
  finally show ?thesis using a by (simp add: fl64_def round64_int)
qed

subsection \<open>The 64-bit integers\<close>


lemma int64_wrap64: "int64 (wrap64 i)"
  by (simp add: int64_def wrap64_def)

lemma int64_astype_int: "int64 (astype_int r)"
  by (simp add: astype_int_def int64_def)


lemma int64_sint: "int64 (sint (l :: 64 word))"
  using sint_ge [of l] sint_lt [of l] by (simp add: int64_def)


subsection \<open>Numbers that \<^verbatim>\<open>float64\<close> represents\<close>

lemma round64_numeral: "numeral k < (2::int) ^ 53 \<Longrightarrow> round64 (numeral k) = numeral k"
  using round64_int [of "numeral k"] by simp

lemma round64_0: "round64 0 = 0"
  by (simp add: round64_def)

lemma round64_1: "round64 1 = 1"
  using round64_int [of 1] by simp

lemma fl64_numeral: "numeral k < (2::int) ^ 53 \<Longrightarrow> fl64 (numeral k) = Some (numeral k)"
  using fl64_int [of "numeral k"] by simp

lemma fl64_neg_numeral:
  "numeral k < (2::int) ^ 53 \<Longrightarrow> fl64 (- numeral k) = Some (- numeral k)"
  using fl64_int [of "- numeral k"] by simp

lemma fl64_0: "fl64 0 = Some 0"
  using fl64_int [of 0] by simp

lemma fl64_1: "fl64 1 = Some 1"
  using fl64_int [of 1] by simp

lemma fl64_dyadic:
  assumes "\<bar>m\<bar> < 2 ^ 53" and "- 1074 \<le> k" and "k \<le> 0"
  shows "fl64 (of_int m * 2 powi k) = Some (of_int m * 2 powi k)"
proof -
  from assms(1) have "(of_int \<bar>m\<bar> :: real) < 2 ^ 53"
    by (metis of_int_less_numeral_power_cancel_iff)
  moreover from assms(3) have "(2::real) powi k \<le> 2 powi 0"
    by (intro power_int_increasing) simp_all
  ultimately have "of_int \<bar>m\<bar> * (2::real) powi k \<le> 2 ^ 53 * 1"
    by (intro mult_mono) (simp_all add: less_imp_le)
  also have "\<dots> \<le> (2::real) ^ 1023" by simp
  also have "\<dots> \<le> max_float" by (rule max_float_ge)
  finally have "\<bar>of_int m * (2::real) powi k\<bar> \<le> max_float" by (simp add: abs_mult)
  with round64_dyadic [OF assms(1,2)] show ?thesis by (simp add: fl64_def)
qed

lemmas float_eval =
  round64_numeral round64_0 round64_1 fl64_numeral fl64_neg_numeral fl64_0 fl64_1

subsection \<open>Rounding at the edge of a binade\<close>

lemma round64_binade:
  assumes "2 powi e \<le> \<bar>x\<bar>" and "\<bar>x\<bar> < 2 powi (e + 1)" and "- 1022 \<le> e"
  shows "round64 x = of_int (rint (x / 2 powi (e - 52))) * 2 powi (e - 52)"
proof -
  have "0 < (2::real) powi e" by simp
  with assms(1) have x: "0 < \<bar>x\<bar>" by linarith
  from log2_ge [OF assms(1)] log2_less [OF x assms(2)] have "\<lfloor>log 2 \<bar>x\<bar>\<rfloor> = e" by simp
  with assms(3) have "ulp_exp x = e - 52" by (simp add: ulp_exp_def)
  with x show ?thesis by (simp add: round64_def)
qed

lemma round64_half_up: "round64 (1 / 2 + 1 / 2 ^ 54) = 1 / 2"
  using round64_binade [of "- 1" "1 / 2 + 1 / 2 ^ 54"]
  by (simp add: power_int_minus rint_def field_simps)

text \<open>A coordinate above \<open>2^53\<close> is rounded when it becomes a \<^verbatim>\<open>float64\<close>.\<close>

lemma fl64_above_2_53: "fl64 (2 ^ 53 + 1) = Some (2 ^ 53)"
proof -
  have "round64 (2 ^ 53 + 1) = 2 ^ 53"
    using round64_binade [of 53 "2 ^ 53 + 1"] by (simp add: rint_def)
  moreover have "(2::real) ^ 53 \<le> 2 ^ 1023" by simp
  ultimately show ?thesis using max_float_ge by (simp add: fl64_def)
qed

subsection \<open>Placing a box\<close>

text \<open>
  Claim C7. A box with \<open>x_max - x_min = w - 1\<close> and \<open>y_max - y_min = h - 1\<close>, placed
  with the target size \<open>(w, h)\<close> and centred in its bounds (not weighted), keeps its
  extents: the slices \<open>x1:x2\<close> and \<open>y1:y2\<close> that are computed cover exactly the columns
  \<open>x_min..x_max\<close> and the rows \<open>y_min..y_max\<close>.
\<close>

theorem C7_identity:
  assumes "x_max bb - x_min bb = w - 1" and "y_max bb - y_min bb = h - 1"
  shows "extents bb (Some w) (Some h) False = (x_min bb, x_max bb + 1, y_min bb, y_max bb + 1)
    \<and> (case extents bb (Some w) (Some h) False of (x1, x2, y1, y2) \<Rightarrow>
         {x1..<x2} = {x_min bb..x_max bb} \<and> {y1..<y2} = {y_min bb..y_max bb})"
  using assms by (auto simp add: extents_def bb_size_def Let_def)

theorem C7_identity_witness:
  "extents \<lparr>x_min = 3, x_max = 7, x_mean = 5, y_min = 2, y_max = 4, y_mean = 3, area = 15\<rparr>
     (Some 5) (Some 3) False = (3, 8, 2, 5)"
  using C7_identity
    [of "\<lparr>x_min = 3, x_max = 7, x_mean = 5, y_min = 2, y_max = 4, y_mean = 3, area = 15\<rparr>" 5 3]
  by simp

subsection \<open>A box that hits the border and is left out\<close>


text \<open>
  The wrap-around of the weighted branch, at a centroid far outside the image: with
  \<open>x_mean = 10^19\<close> the conversion gives \<open>-2^63\<close>, the subtraction of 1 wraps to
  \<open>2^63 - 1\<close> and the addition of 2 to \<open>-2^63 + 1\<close>, and the check of line 115 does not
  see a box that hits the border.
\<close>

lemma extents_far_centroid:
  "extents \<lparr>x_min = 0, x_max = 1, x_mean = 10 ^ 19, y_min = 0, y_max = 1, y_mean = 1, area = 4\<rparr>
     (Some 2) (Some 2) True = (2 ^ 63 - 1, - (2 ^ 63) + 1, 0, 2)
   \<and> \<not> hits_border (2 ^ 63 - 1, - (2 ^ 63) + 1, 0, 2) 3 3"
  by (simp add: extents_def bb_size_def Let_def rint_def astype_int_def int64_def wrap64_def
      hits_border_def)



subsection \<open>Writing a region of a stack\<close>

lemma upd_slice_length [simp]: "length (upd_slice n a b f xs) = length xs"
  by (simp add: upd_slice_def)

lemma upd_slice_nth:
  "i < length xs \<Longrightarrow> upd_slice n a b f xs ! i = (if in_slice n a b i then f (xs ! i) else xs ! i)"
  by (simp add: upd_slice_def nth_enumerate_eq)

lemma shape_assign_region [simp]: "shape (assign_region s idx y1 y2 x1 x2 v) = shape s"
  by (cases "shape s"; cases idx) (simp_all add: assign_region_def Let_def)

lemma wf_stackD:
  assumes "wf_stack s" and "shape s = (n, h, w)"
  shows "length (data s) = n"
    and "f < n \<Longrightarrow> length (data s ! f) = h"
    and "f < n \<Longrightarrow> y < h \<Longrightarrow> length (data s ! f ! y) = w"
  using assms by (auto simp add: wf_stack_def list_all_length)




lemma px_assign_region:
  assumes "wf_stack s" and "shape s = (n, h, w)" and "f < n" and "y < h" and "x < w"
  shows "px (assign_region s idx y1 y2 x1 x2 v) f y x =
     (if selects idx f \<and> in_slice h y1 y2 y \<and> in_slice w x1 x2 x then v else px s f y x)"
proof -
  note d = wf_stackD [OF assms(1,2)]
  show ?thesis
  proof (cases idx)
    case AllFrames
    with assms d show ?thesis
      by (simp add: px_def assign_region_def Let_def selects_def upd_slice_nth)
  next
    case (OneFrame k)
    with assms d show ?thesis
      by (cases "f = k") (simp_all add: px_def assign_region_def Let_def selects_def upd_slice_nth)
  qed
qed


lemma in_slice_nonneg:
  "0 \<le> a \<Longrightarrow> 0 \<le> b \<Longrightarrow> i < n \<Longrightarrow> in_slice n a b i \<longleftrightarrow> a \<le> int i \<and> int i < b"
  by (auto simp add: in_slice_def slice_bound_def)

lemma insert_bb_unfold:
  assumes "shape stack = (n, h, w)" and "frame_index frame n = Inr idx"
    and "extents bb bb_width bb_height weighted = e"
    and "weighted \<longrightarrow> int64 (fst (bb_size bb bb_width bb_height))
           \<and> int64 (snd (bb_size bb bb_width bb_height))"
  shows "insert_bb stack bb bb_width bb_height frame weighted ignore_borders err =
     (if hits_border e h w then
        (if ignore_borders then
           (case clip e h w of (x1, x2, y1, y2) \<Rightarrow>
              Inr (assign_region stack idx y1 y2 x1 x2 2,
                   err @ [border_msg ''INCLUDE'' e (frame_name frame)
                            (fst (bb_size bb bb_width bb_height))
                            (snd (bb_size bb bb_width bb_height))]))
         else Inr (stack,
                   err @ [border_msg ''EXCLUDE'' e (frame_name frame)
                            (fst (bb_size bb bb_width bb_height))
                            (snd (bb_size bb bb_width bb_height))]))
      else (case e of (x1, x2, y1, y2) \<Rightarrow> Inr (assign_region stack idx y1 y2 x1 x2 1, err)))"
  using assms by (auto simp add: insert_bb_def Let_def split_beta)




subsection \<open>A box that fits\<close>



subsection \<open>A box that hits the border and is drawn\<close>

text \<open>
  What \<^verbatim>\<open>insert_bb\<close> draws when the upper extents \<open>x2\<close> and \<open>y2\<close> are not negative,
  the frame argument indexes the stack and, in the weighted branch, the requested
  width and height are values of \<^verbatim>\<open>np.int64\<close>: the value 1 (the box fits) or 2 (the box
  is clipped, with \<^verbatim>\<open>ignore_borders\<close>) on the part of the footprint inside the image,
  in the selected frames; every other entry keeps its value.
\<close>

lemma clip_bounds:
  assumes "clip (x1, x2, y1, y2) h w = (cx1, cx2, cy1, cy2)" and "0 \<le> x2" and "0 \<le> y2"
  shows "cx1 = max 0 x1 \<and> cx2 = min (int w) x2 \<and> cy1 = max 0 y1 \<and> cy2 = min (int h) y2
           \<and> 0 \<le> cx1 \<and> 0 \<le> cx2 \<and> 0 \<le> cy1 \<and> 0 \<le> cy2"
  using assms by (auto simp add: clip_def)

lemma insert_bb_draws:
  assumes "wf_stack stack" and "shape stack = (n, h, w)" and "frame_index frame n = Inr idx"
    and "extents bb bb_width bb_height weighted = (x1, x2, y1, y2)"
    and "0 \<le> x2" and "0 \<le> y2"
    and "hits_border (x1, x2, y1, y2) h w \<longrightarrow> ignore_borders"
    and "f < n" and "y < h" and "x < w"
    and "weighted \<longrightarrow> int64 (fst (bb_size bb bb_width bb_height))
           \<and> int64 (snd (bb_size bb bb_width bb_height))"
  shows "\<exists>stack' err'.
     insert_bb stack bb bb_width bb_height frame weighted ignore_borders err = Inr (stack', err')
     \<and> px stack' f y x =
         (if selects idx f \<and> max 0 y1 \<le> int y \<and> int y < min (int h) y2
               \<and> max 0 x1 \<le> int x \<and> int x < min (int w) x2
          then (if hits_border (x1, x2, y1, y2) h w then 2 else 1)
          else px stack f y x)"
proof (cases "hits_border (x1, x2, y1, y2) h w")
  case True
  with assms(7) have ib: ignore_borders by simp
  obtain cx1 cx2 cy1 cy2 where c: "clip (x1, x2, y1, y2) h w = (cx1, cx2, cy1, cy2)"
    by (cases "clip (x1, x2, y1, y2) h w") auto
  note b = clip_bounds [OF c assms(5,6)]
  from b assms(5,6,8-10)
  have "in_slice h cy1 cy2 y \<longleftrightarrow> max 0 y1 \<le> int y \<and> int y < min (int h) y2"
    and "in_slice w cx1 cx2 x \<longleftrightarrow> max 0 x1 \<le> int x \<and> int x < min (int w) x2"
    by (auto simp add: in_slice_def slice_bound_def)
  with True ib c assms(8-10) show ?thesis
    by (simp add: insert_bb_unfold [OF assms(2,3,4,11)] px_assign_region [OF assms(1,2)])
next
  case False
  then have nn: "0 \<le> x1" "0 \<le> y1" "x2 \<le> int w" "y2 \<le> int h"
    by (simp_all add: hits_border_def)
  have "in_slice h y1 y2 y \<longleftrightarrow> max 0 y1 \<le> int y \<and> int y < min (int h) y2"
    and "in_slice w x1 x2 x \<longleftrightarrow> max 0 x1 \<le> int x \<and> int x < min (int w) x2"
    using nn assms(5,6,8-10) by (auto simp add: in_slice_def slice_bound_def)
  with False assms(8-10) show ?thesis
    by (simp add: insert_bb_unfold [OF assms(2,3,4,11)] px_assign_region [OF assms(1,2)])
qed

lemmas insert_bb_eval =
  insert_bb_def extents_def bb_size_def hits_border_def clip_def frame_index_def frame_name_def
  border_msg_def str_int_def str_nat.simps assign_region_def upd_slice_def in_slice_def
  slice_bound_def rint_def astype_int_def int64_def wrap64_def Let_def

text \<open>
  Claim C5, on an input where the code departs from it. The box lies to the left
  of a 5 pixels wide image: its extents are \<open>x = -5:-3\<close>, \<open>y = 0:2\<close>. With
  \<^verbatim>\<open>ignore_borders\<close> the extents are clipped to \<open>x = 0:-3\<close>; the upper bound stays
  negative, the slice \<open>0:-3\<close> counts it from the end, and the value 2 is written in
  the columns 0 and 1, which are not part of the box. The one line on the standard
  error stream is tagged \<^verbatim>\<open>INCLUDE\<close>.
\<close>

theorem C5_clip_wraps:
  "clip (extents \<lparr>x_min = - 5, x_max = - 3, x_mean = - 4, y_min = 0, y_max = 2, y_mean = 1,
                   area = 4\<rparr> (Some 2) (Some 2) True) 3 5 = (0, - 3, 0, 2)
   \<and> insert_bb \<lparr>shape = (1, 3, 5), data = [[[0, 0, 0, 0, 0], [0, 0, 0, 0, 0], [0, 0, 0, 0, 0]]]\<rparr>
       \<lparr>x_min = - 5, x_max = - 3, x_mean = - 4, y_min = 0, y_max = 2, y_mean = 1, area = 4\<rparr>
       (Some 2) (Some 2) (FInt 0) True True []
     = Inr (\<lparr>shape = (1, 3, 5),
              data = [[[2, 2, 0, 0, 0], [2, 2, 0, 0, 0], [0, 0, 0, 0, 0]]]\<rparr>,
            [''INCLUDE box (x=-5:-3, y=0:2)[1] that hits border (w=2, h=2)''])"
  by (simp add: insert_bb_eval)

text \<open>
  Claim C10, on an input where the code departs from it. The box lies above a 4
  pixels high image (\<open>y = -4:-2\<close>, \<open>x = 0:2\<close>), the frame argument is \<^verbatim>\<open>None\<close> (all
  frames) and \<^verbatim>\<open>ignore_borders\<close> is set. The clipped rectangle \<open>y = 0:-2\<close> contains
  no row, yet the entries of the rows 0 and 1 change from 0 to 2 in both frames.
\<close>

theorem C10_frame_broken:
  "clip (extents \<lparr>x_min = 0, x_max = 2, x_mean = 1, y_min = - 4, y_max = - 2, y_mean = - 3,
                   area = 4\<rparr> (Some 2) (Some 2) True) 4 3 = (0, 2, 0, - 2)
   \<and> (\<exists>stack' err'.
        insert_bb \<lparr>shape = (2, 4, 3),
                    data = [[[0, 0, 0], [0, 0, 0], [0, 0, 0], [0, 0, 0]],
                            [[0, 0, 0], [0, 0, 0], [0, 0, 0], [0, 0, 0]]]\<rparr>
          \<lparr>x_min = 0, x_max = 2, x_mean = 1, y_min = - 4, y_max = - 2, y_mean = - 3, area = 4\<rparr>
          (Some 2) (Some 2) FNone True True [] = Inr (stack', err')
        \<and> px stack' 0 1 0 = 2 \<and> px stack' 1 0 1 = 2)"
  by (simp add: insert_bb_eval px_def)


subsection \<open>The side of the square\<close>



lemma rint_ge_int: "of_int k \<le> x \<Longrightarrow> k \<le> rint x"
  using rint_mono [of "of_int k" x] by simp










subsection \<open>The squares of two margins\<close>










subsection \<open>The boxes of \<^verbatim>\<open>make_empty_bboxes\<close>\<close>

lemma sqrt_4: "sqrt 4 = 2"
  by simp

lemma sqrt_400: "sqrt 400 = 20"
  using real_sqrt_abs [of 20] by simp

lemma empty_size_4: "empty_size 4 = Some (2, 2, 4)"
  by (simp add: empty_size_def sqrt_4 float_eval rint_def Let_def)

lemma empty_size_400: "empty_size 400 = Some (20, 20, 400)"
  by (simp add: empty_size_def sqrt_400 float_eval rint_def Let_def)

lemma make_empty_1_1:
  "make_empty_bboxes (ECoords [(1, 1)]) 4
     = Inr [(KId 0, Track [(FNone, \<lparr>x_min = 0, x_max = 2, x_mean = 1, y_min = 0, y_max = 2,
                                      y_mean = 1, area = 4\<rparr>)])]"
  by (simp add: make_empty_bboxes_def empty_size_4 empty_bbox_def Let_def float_eval rint_def)

lemma make_empty_400:
  "make_empty_bboxes (ECoords [(100, 200), (300, 400)]) 400
     = Inr [(KId 0, Track [(FNone, \<lparr>x_min = 90, x_max = 110, x_mean = 100, y_min = 190,
                                      y_max = 210, y_mean = 200, area = 400\<rparr>)]),
            (KId 1, Track [(FNone, \<lparr>x_min = 290, x_max = 310, x_mean = 300, y_min = 390,
                                      y_max = 410, y_mean = 400, area = 400\<rparr>)])]"
  by (simp add: make_empty_bboxes_def empty_size_400 empty_bbox_def Let_def float_eval rint_def)

text \<open>
  Just above the area 1/4 the square root rounds to 1/2 and the width to 0: the
  height is then the rounding of a division by \<^verbatim>\<open>0.0\<close>.
\<close>

lemma empty_size_above_quarter: "empty_size (1 / 4 + 1 / 2 ^ 54) = None"
proof -
  let ?a = "1 / 4 + 1 / 2 ^ 54 :: real"
  have "sqrt (1 / 4) \<le> sqrt ?a" by (intro real_sqrt_le_mono) simp
  then have lo: "1 / 2 \<le> sqrt ?a" by (simp add: real_sqrt_divide)
  have "?a \<le> (1 / 2 + 1 / 2 ^ 54)\<^sup>2" by (simp add: power2_eq_square field_simps)
  then have "sqrt ?a \<le> sqrt ((1 / 2 + 1 / 2 ^ 54)\<^sup>2)" by (rule real_sqrt_le_mono)
  then have hi: "sqrt ?a \<le> 1 / 2 + 1 / 2 ^ 54" by simp
  have h: "round64 (1 / 2) = 1 / 2" using round64_dyadic [of 1 "- 1"] by (simp add: power_int_minus)
  from lo have "round64 (1 / 2) \<le> round64 (sqrt ?a)" by (intro round64_mono) simp_all
  moreover from hi have "round64 (sqrt ?a) \<le> round64 (1 / 2 + 1 / 2 ^ 54)"
    by (intro round64_mono) simp_all
  ultimately have "round64 (sqrt ?a) = 1 / 2" unfolding h round64_half_up by simp
  then have r: "rint (round64 (sqrt ?a)) = 0" by (simp only:) (simp add: rint_def)
  show ?thesis unfolding empty_size_def Let_def r by simp
qed

text \<open>
  For a coordinate above \<open>2^53\<close> the sum \<open>x1 + w\<close> is rounded, and the bounds of the
  box are 1 apart for the width 2.
\<close>

lemma empty_bbox_far:
  "empty_bbox (2, 2, 4) (2 ^ 53 + 1, 1)
     = Inr \<lparr>x_min = 2 ^ 53 - 1, x_max = 2 ^ 53, x_mean = 2 ^ 53, y_min = 0, y_max = 2,
            y_mean = 1, area = 4\<rparr>"
proof -
  have a: "fl64 (2 ^ 53 - 1) = Some (2 ^ 53 - 1)" using fl64_int [of "2 ^ 53 - 1"] by simp
  have b: "fl64 (2 ^ 54 - 1) = Some (2 ^ 54)"
  proof -
    have "round64 (2 ^ 54 - 1) = 2 ^ 54"
      using round64_binade [of 53 "2 ^ 54 - 1"] by (simp add: rint_def)
    moreover have "(2::real) ^ 54 \<le> 2 ^ 1023" by simp
    ultimately show ?thesis using max_float_ge by (simp add: fl64_def)
  qed
  have c: "round64 (2 ^ 53) = 2 ^ 53" using round64_dyadic [of 1 53] by simp
  show ?thesis
    using a b c fl64_above_2_53
    by (simp add: empty_bbox_def Let_def float_eval rint_def)
qed

text \<open>
  Claim C9, on an input where the code departs from it: the coordinates and the area
  of the example of the specification. The width and the height are
  \<open>round (sqrt 400) = 20\<close>, and the boxes are centred at the coordinates. But line 67
  stores \<open>x_max = x1 + w\<close> (and line 68 \<open>y_max = y1 + h\<close>), while the bounds of a box
  are its first and its last column (line 93: \<open>w = x_max - x_min + 1\<close>): the first
  box has the columns \<open>90..110\<close> and the rows \<open>190..210\<close>, the second the columns
  \<open>290..310\<close> and the rows \<open>390..410\<close>. Each is 21 pixels wide and high, one more
  than \<open>round (sqrt area)\<close>, and holds 441 pixels, not the 400 that it records as its
  area.
\<close>

theorem C9_box_one_wider:
  "make_empty_bboxes (ECoords [(100, 200), (300, 400)]) 400
     = Inr [(KId 0, Track [(FNone, \<lparr>x_min = 90, x_max = 110, x_mean = 100, y_min = 190,
                                      y_max = 210, y_mean = 200, area = 400\<rparr>)]),
            (KId 1, Track [(FNone, \<lparr>x_min = 290, x_max = 310, x_mean = 300, y_min = 390,
                                      y_max = 410, y_mean = 400, area = 400\<rparr>)])]
   \<and> rint (round64 (sqrt 400)) = 20
   \<and> bb_size \<lparr>x_min = 90, x_max = 110, x_mean = 100, y_min = 190, y_max = 210, y_mean = 200,
               area = 400\<rparr> None None = (21, 21)
   \<and> bb_size \<lparr>x_min = 290, x_max = 310, x_mean = 300, y_min = 390, y_max = 410, y_mean = 400,
               area = 400\<rparr> None None = (21, 21)"
  by (simp add: make_empty_400 sqrt_400 float_eval rint_def bb_size_def)

subsection \<open>Where the stack dimensions are read\<close>






subsection \<open>Synthetic boxes in the stacks\<close>

lemma empty_tracks_shape:
  assumes "empty_tracks sz i cs = Inr tc" and "(k, tr) \<in> set tc"
  shows "\<exists>bb. tr = Track [(FNone, bb)]"
  using assms
  by (induction cs arbitrary: i tc) (auto split: sum.splits)

lemma empty_tracks_length:
  "empty_tracks sz i cs = Inr tc \<Longrightarrow> length tc = length cs"
  by (induction cs arbitrary: i tc) (auto split: sum.splits)

lemma make_empty_tracks:
  assumes "make_empty_bboxes coords a = Inr synth" and "(k, tr) \<in> set synth"
  shows "\<exists>bb. tr = Track [(FNone, bb)]"
  using assms
  by (auto simp add: make_empty_bboxes_def split: empty_arg.splits if_splits option.splits
      dest: empty_tracks_shape)

lemma bb_length_4_0: "bb_length 4 0 = Some 2"
  by (simp add: bb_length_def sqrt_4 float_eval rint_def astype_int_def int64_def)

lemma vmc_1_1:
  "varying_margins_centered 4
       [Some [(KNone, Meta \<lparr>n_frames = 2, width = 3, height = 3\<rparr>)],
        Some [(KId 0, Track [(FNone, \<lparr>x_min = 0, x_max = 2, x_mean = 1, y_min = 0, y_max = 2,
                                        y_mean = 1, area = 4\<rparr>)])]]
       [0] False []
     = Inr ([(0, \<lparr>shape = (2, 3, 3),
                   data = [[[1, 1, 0], [1, 1, 0], [0, 0, 0]],
                           [[1, 1, 0], [1, 1, 0], [0, 0, 0]]]\<rparr>)], [])"
  by (simp add: varying_margins_centered_def vmc_meta_def np_zeros_def all_items_def
      bb_length_4_0 insert_bb_eval numeral_eq_Suc)

lemma draw_track_single:
  "draw_track stack (Some l) ignore_borders [(FNone, bb)] err
     = insert_bb stack bb (Some (sint l)) (Some (sint l)) FNone True ignore_borders err"
  by (cases "insert_bb stack bb (Some (sint l)) (Some (sint l)) FNone True ignore_borders err")
    auto

lemma fits_px:
  assumes "wf_stack stack" and "shape stack = (n, h, w)"
    and "\<not> hits_border (x1, x2, y1, y2) h w"
    and "f < n" and "selects idx f" and "y1 \<le> y" and "y < y2" and "x1 \<le> x" and "x < x2"
  shows "px (assign_region stack idx y1 y2 x1 x2 v) f (nat y) (nat x) = v"
proof -
  from assms(3,6-9)
  have b: "nat y < h" "nat x < w" "0 \<le> y" "0 \<le> x" "0 \<le> y1" "0 \<le> x1" "0 \<le> y2" "0 \<le> x2"
    by (auto simp add: hits_border_def)
  with assms(4-9) show ?thesis
    by (simp add: px_assign_region [OF assms(1,2)] in_slice_nonneg)
qed

text \<open>
  Claim C1 as it is stated fails: the track that \<^verbatim>\<open>make_empty_bboxes\<close> makes for the
  coordinate \<open>(1, 1)\<close> and the area 4 is drawn by \<^verbatim>\<open>varying_margins_centered\<close>; the
  value 1 stands on its footprint in both frames of the stack.
\<close>

theorem C1_drawn_in_all_frames:
  "make_empty_bboxes (ECoords [(1, 1)]) 4
     = Inr [(KId 0, Track [(FNone, \<lparr>x_min = 0, x_max = 2, x_mean = 1, y_min = 0, y_max = 2,
                                      y_mean = 1, area = 4\<rparr>)])]
   \<and> varying_margins_centered 4
       [Some [(KNone, Meta \<lparr>n_frames = 2, width = 3, height = 3\<rparr>)],
        Some [(KId 0, Track [(FNone, \<lparr>x_min = 0, x_max = 2, x_mean = 1, y_min = 0, y_max = 2,
                                        y_mean = 1, area = 4\<rparr>)])]]
       [0] False []
     = Inr ([(0, \<lparr>shape = (2, 3, 3),
                   data = [[[1, 1, 0], [1, 1, 0], [0, 0, 0]],
                           [[1, 1, 0], [1, 1, 0], [0, 0, 0]]]\<rparr>)], [])"
  by (simp only: make_empty_1_1 vmc_1_1 simp_thms)



text \<open>
  Claim C1, amended: every track that \<^verbatim>\<open>make_empty_bboxes\<close> produces has one entry,
  under the key \<^verbatim>\<open>None\<close>. That is not the key \<^verbatim>\<open>...\<close> which line 161 skips, so the
  box is handed to \<^verbatim>\<open>insert_bb\<close> with the frame \<^verbatim>\<open>None\<close>, which stands for all
  frames: when the square around the box fits into the image, the value 1 is
  written on its footprint in every frame of the stack. The side \<open>l\<close> of the square
  is any value of \<^verbatim>\<open>np.int64\<close>, as line 158 computes it.
\<close>

theorem C1_synthetic_drawn:
  assumes "make_empty_bboxes coords a = Inr synth" and "(k, tr) \<in> set synth"
    and "wf_stack stack" and "shape stack = (n, h, w)"
  shows "\<exists>bb. tr = Track [(FNone, bb)]
     \<and> draw_track stack (Some l) ignore_borders [(FNone, bb)] err
         = insert_bb stack bb (Some (sint l)) (Some (sint l)) FNone True ignore_borders err
     \<and> (\<forall>x1 x2 y1 y2.
          extents bb (Some (sint l)) (Some (sint l)) True = (x1, x2, y1, y2)
            \<and> \<not> hits_border (x1, x2, y1, y2) h w \<longrightarrow>
          (\<exists>stack'. draw_track stack (Some l) ignore_borders [(FNone, bb)] err = Inr (stack', err)
             \<and> (\<forall>f y x. f < n \<and> y1 \<le> y \<and> y < y2 \<and> x1 \<le> x \<and> x < x2
                   \<longrightarrow> px stack' f (nat y) (nat x) = 1)))"
proof -
  from make_empty_tracks [OF assms(1,2)] obtain bb where tr: "tr = Track [(FNone, bb)]" ..
  have fi: "frame_index FNone n = Inr AllFrames" by (simp add: frame_index_def)
  have g: "True \<longrightarrow> int64 (fst (bb_size bb (Some (sint l)) (Some (sint l))))
      \<and> int64 (snd (bb_size bb (Some (sint l)) (Some (sint l))))"
    by (simp add: bb_size_def int64_sint)
  have "\<exists>stack'. draw_track stack (Some l) ignore_borders [(FNone, bb)] err = Inr (stack', err)
             \<and> (\<forall>f y x. f < n \<and> y1 \<le> y \<and> y < y2 \<and> x1 \<le> x \<and> x < x2
                   \<longrightarrow> px stack' f (nat y) (nat x) = 1)"
    if e: "extents bb (Some (sint l)) (Some (sint l)) True = (x1, x2, y1, y2)"
      and nh: "\<not> hits_border (x1, x2, y1, y2) h w" for x1 x2 y1 y2
  proof -
    have "draw_track stack (Some l) ignore_borders [(FNone, bb)] err
        = Inr (assign_region stack AllFrames y1 y2 x1 x2 1, err)"
      using nh by (simp only: draw_track_single insert_bb_unfold [OF assms(4) fi e g]) simp
    moreover have "px (assign_region stack AllFrames y1 y2 x1 x2 1) f (nat y) (nat x) = 1"
      if "f < n" "y1 \<le> y" "y < y2" "x1 \<le> x" "x < x2" for f y x
      using fits_px [OF assms(3,4) nh, where f = f and idx = AllFrames and y = y and x = x and v = 1] that
      by (simp add: selects_def)
    ultimately show ?thesis by blast
  qed
  with tr draw_track_single [of stack l ignore_borders bb err] show ?thesis by blast
qed

theorem C1_synthetic_drawn_witness:
  "\<exists>stack'.
     draw_track
       \<lparr>shape = (2, 3, 3),
          data = [[[0, 0, 0], [0, 0, 0], [0, 0, 0]], [[0, 0, 0], [0, 0, 0], [0, 0, 0]]]\<rparr>
       (Some 2) False
       [(FNone, \<lparr>x_min = 0, x_max = 2, x_mean = 1, y_min = 0, y_max = 2, y_mean = 1, area = 4\<rparr>)]
       [] = Inr (stack', [])
     \<and> px stack' 0 1 1 = 1 \<and> px stack' 1 1 1 = 1"
proof -
  let ?bb = "\<lparr>x_min = 0, x_max = 2, x_mean = 1, y_min = 0, y_max = 2, y_mean = 1, area = 4\<rparr>"
  let ?st = "\<lparr>shape = (2, 3, 3),
      data = [[[0, 0, 0], [0, 0, 0], [0, 0, 0]], [[0, 0, 0], [0, 0, 0], [0, 0, 0 :: pixel]]]\<rparr>"
  have w: "wf_stack ?st" by (simp add: wf_stack_def)
  have sh: "shape ?st = (2, 3, 3)" by simp
  have mem: "(KId 0, Track [(FNone, ?bb)]) \<in> set [(KId 0, Track [(FNone, ?bb)])]" by simp
  have e: "extents ?bb (Some (sint (2 :: 64 word))) (Some (sint (2 :: 64 word))) True = (0, 2, 0, 2)"
    by (simp add: extents_def bb_size_def Let_def rint_def astype_int_def int64_def wrap64_def)
  have nh: "\<not> hits_border (0, 2, 0, 2) 3 3" by (simp add: hits_border_def)
  from C1_synthetic_drawn [OF make_empty_1_1 mem w sh, of 2 False "[]"]
  obtain bb where tr: "Track [(FNone, ?bb)] = Track [(FNone, bb)]"
    and al: "\<forall>x1 x2 y1 y2.
          extents bb (Some (sint (2 :: 64 word))) (Some (sint (2 :: 64 word))) True
              = (x1, x2, y1, y2)
            \<and> \<not> hits_border (x1, x2, y1, y2) 3 3 \<longrightarrow>
          (\<exists>stack'. draw_track ?st (Some 2) False [(FNone, bb)] [] = Inr (stack', [])
             \<and> (\<forall>f y x. f < 2 \<and> y1 \<le> y \<and> y < y2 \<and> x1 \<le> x \<and> x < x2
                   \<longrightarrow> px stack' f (nat y) (nat x) = 1))"
    by blast
  from tr have bb: "bb = ?bb" by simp
  from al [rule_format, of 0 2 0 2] e nh
  obtain stack' where d: "draw_track ?st (Some 2) False [(FNone, ?bb)] [] = Inr (stack', [])"
    and p: "\<forall>f y x. f < 2 \<and> (0::int) \<le> y \<and> y < 2 \<and> (0::int) \<le> x \<and> x < 2
                   \<longrightarrow> px stack' f (nat y) (nat x) = 1"
    unfolding bb by blast
  from p [rule_format, of 0 1 1] have p0: "px stack' 0 1 1 = 1" by simp
  from p [rule_format, of 1 1 1] have p1: "px stack' 1 1 1 = 1" by simp
  show ?thesis by (rule exI [of _ stack']) (intro conjI d p0 p1)
qed

subsection \<open>Several files in one run\<close>

lemma make_empty_dict:
  "d \<noteq> [] \<Longrightarrow> make_empty_bboxes (EDict d) a = Inl TypeError"
  by (simp add: make_empty_bboxes_def)

lemma main_second_file_raises:
  assumes "cs \<noteq> []"
  shows "\<exists>ex. main (f1 # f2 # path) a margin ignore_borders (ECoords cs) err = Inl ex"
proof (cases "make_empty_bboxes (ECoords cs) a")
  case (Inl ex)
  with assms show ?thesis by (simp add: truthy_def)
next
  case (Inr d)
  with assms have d: "d \<noteq> []"
    by (auto simp add: make_empty_bboxes_def split: option.splits if_splits
        dest!: empty_tracks_length)
  show ?thesis
  proof (cases "varying_margins_centered a [Some f1, Some d] margin ignore_borders err")
    case (Inl ex)
    with Inr assms show ?thesis by (simp add: truthy_def as_collection_def)
  next
    case r: (Inr res)
    obtain stacks err' where res: "res = (stacks, err')" by (cases res)
    from d have "main (f2 # path) a margin ignore_borders (EDict d) err' = Inl TypeError"
      by (simp add: truthy_def make_empty_dict)
    with Inr r res assms show ?thesis by (simp add: truthy_def as_collection_def)
  qed
qed

text \<open>
  Claim C2, on an input where the code departs from it. A run on one file with the
  coordinate \<open>(1, 1)\<close> returns the stack of that file; a run on the same file twice
  raises \<^verbatim>\<open>TypeError\<close> at the second file, because line 289 has replaced \<^verbatim>\<open>empty\<close>
  by the dict of boxes, which \<^verbatim>\<open>make_empty_bboxes\<close> then receives as its
  coordinates.
\<close>

theorem C2_second_file_fails:
  "main [[(KNone, Meta \<lparr>n_frames = 2, width = 3, height = 3\<rparr>)]] 4 [0] False
      (ECoords [(1, 1)]) []
     = Inr ([[(0, \<lparr>shape = (2, 3, 3),
                    data = [[[1, 1, 0], [1, 1, 0], [0, 0, 0]],
                            [[1, 1, 0], [1, 1, 0], [0, 0, 0]]]\<rparr>)]], [])
   \<and> main [[(KNone, Meta \<lparr>n_frames = 2, width = 3, height = 3\<rparr>)],
            [(KNone, Meta \<lparr>n_frames = 2, width = 3, height = 3\<rparr>)]] 4 [0] False
      (ECoords [(1, 1)]) []
     = Inl TypeError"
  by (simp add: truthy_def as_collection_def make_empty_1_1 vmc_1_1 make_empty_dict)

end
